theory Spec2Isabelle
  imports Main "HOL-Library.Word"
begin

unbundle bit_operations_syntax

section \<open>Python values, exceptions and the key objects of the cryptography package\<close>

text \<open>
  \<^verbatim>\<open>schemapin/crypto.py\<close> is dynamically typed: every entry point receives arbitrary
  Python objects and tells them apart with \<^verbatim>\<open>isinstance\<close>. The objects that matter are
  modelled by one datatype. A \<^verbatim>\<open>bytes\<close> value is a list of 8-bit words. A \<^verbatim>\<open>str\<close> is
  kept as the list of the bytes of its UTF-8 form (one \<open>char\<close> per byte), so an ASCII
  text is the \<open>string\<close> one reads; a \<^verbatim>\<open>str\<close> holding a lone surrogate has no UTF-8 form
  and is outside the model.
\<close>

type_synonym byte = "8 word"

datatype curve = SECP256R1 | SECP384R1 | SECP521R1 | SECP224R1 | SECP192R1 | SECP256K1

type_synonym point = "nat \<times> nat"

datatype py_obj =
    PyNone
  | PyBool bool
  | PyInt int
  | PyStr string
  | PyBytes "byte list"
  | EllipticCurvePrivateKey curve nat
  | EllipticCurvePublicKey curve point
  | OtherObject string

text \<open>
  \<open>EllipticCurvePrivateKey c d\<close> is an instance of the package's class of that name
  whose \<^verbatim>\<open>.curve\<close> is an instance of \<open>c\<close> and whose private value is \<open>d\<close>;
  \<open>EllipticCurvePublicKey c Q\<close> likewise with the public numbers \<open>Q\<close>. \<open>OtherObject n\<close>
  is an instance of any other class \<open>n\<close> (an RSA or Ed25519 key, a \<^verbatim>\<open>bytearray\<close>, ...).

  Exceptions carry their Python class and, for the two built-in classes the module
  raises itself, the message. All of them derive from \<^verbatim>\<open>Exception\<close>, so the handler
  \<^verbatim>\<open>except Exception\<close> catches every value of this type.
\<close>

datatype py_exception =
    TypeError string
  | ValueError string
  | AttributeError
  | UnicodeDecodeError
  | BinasciiError
  | InvalidSignature
  | UnsupportedAlgorithm

fun isinstance_str :: "py_obj \<Rightarrow> bool" where
  "isinstance_str (PyStr s) = True"
| "isinstance_str v = False"

fun isinstance_bytes :: "py_obj \<Rightarrow> bool" where
  "isinstance_bytes (PyBytes b) = True"
| "isinstance_bytes v = False"

fun isinstance_EllipticCurvePrivateKey :: "py_obj \<Rightarrow> bool" where
  "isinstance_EllipticCurvePrivateKey (EllipticCurvePrivateKey c d) = True"
| "isinstance_EllipticCurvePrivateKey v = False"

fun isinstance_EllipticCurvePublicKey :: "py_obj \<Rightarrow> bool" where
  "isinstance_EllipticCurvePublicKey (EllipticCurvePublicKey c Q) = True"
| "isinstance_EllipticCurvePublicKey v = False"

section \<open>Text and bytes\<close>

text \<open>
  \<^verbatim>\<open>str.encode('utf-8')\<close>, \<^verbatim>\<open>bytes.decode('utf-8')\<close> and \<^verbatim>\<open>bytes.decode('ascii')\<close>.
  With a \<^verbatim>\<open>str\<close> kept in UTF-8 form, encoding copies the bytes and decoding checks
  that they are well-formed UTF-8 (ASCII, respectively) and raises
  \<^verbatim>\<open>UnicodeDecodeError\<close> otherwise.
\<close>

definition byte_of_char :: "char \<Rightarrow> byte" where
  "byte_of_char c = of_char c"

definition char_of_byte :: "byte \<Rightarrow> char" where
  "char_of_byte b = char_of (unat b)"

definition str_encode_utf8 :: "string \<Rightarrow> byte list" where
  "str_encode_utf8 s = map byte_of_char s"

definition utf8_cont :: "byte \<Rightarrow> bool" where
  "utf8_cont b = (0x80 \<le> b \<and> b \<le> 0xBF)"

fun utf8_valid :: "byte list \<Rightarrow> bool" where
  "utf8_valid [] = True"
| "utf8_valid [b] = (b < 0x80)"
| "utf8_valid [b, c1] = (if b < 0x80 then utf8_valid [c1] else 0xC2 \<le> b \<and> b \<le> 0xDF \<and> utf8_cont c1)"
| "utf8_valid [b, c1, c2] =
     (if b < 0x80 then utf8_valid [c1, c2]
      else if 0xC2 \<le> b \<and> b \<le> 0xDF then utf8_cont c1 \<and> utf8_valid [c2]
      else 0xE0 \<le> b \<and> b \<le> 0xEF
         \<and> (if b = 0xE0 then 0xA0 \<le> c1 \<and> c1 \<le> 0xBF
            else if b = 0xED then 0x80 \<le> c1 \<and> c1 \<le> 0x9F
            else utf8_cont c1)
         \<and> utf8_cont c2)"
| "utf8_valid (b # c1 # c2 # c3 # bs) =
     (if b < 0x80 then utf8_valid (c1 # c2 # c3 # bs)
      else if 0xC2 \<le> b \<and> b \<le> 0xDF then utf8_cont c1 \<and> utf8_valid (c2 # c3 # bs)
      else if 0xE0 \<le> b \<and> b \<le> 0xEF then
           (if b = 0xE0 then 0xA0 \<le> c1 \<and> c1 \<le> 0xBF
            else if b = 0xED then 0x80 \<le> c1 \<and> c1 \<le> 0x9F
            else utf8_cont c1)
         \<and> utf8_cont c2 \<and> utf8_valid (c3 # bs)
      else 0xF0 \<le> b \<and> b \<le> 0xF4
         \<and> (if b = 0xF0 then 0x90 \<le> c1 \<and> c1 \<le> 0xBF
            else if b = 0xF4 then 0x80 \<le> c1 \<and> c1 \<le> 0x8F
            else utf8_cont c1)
         \<and> utf8_cont c2 \<and> utf8_cont c3 \<and> utf8_valid bs)"

definition bytes_decode_utf8 :: "byte list \<Rightarrow> py_exception + string" where
  "bytes_decode_utf8 bs =
     (if utf8_valid bs then Inr (map char_of_byte bs) else Inl UnicodeDecodeError)"

definition bytes_decode_ascii :: "byte list \<Rightarrow> py_exception + string" where
  "bytes_decode_ascii bs =
     (if list_all (\<lambda>b. b < 0x80) bs then Inr (map char_of_byte bs)
      else Inl UnicodeDecodeError)"

section \<open>The standard library's base64 and hex encodings\<close>

text \<open>
  \<^verbatim>\<open>base64.b64encode(s)\<close> is \<^verbatim>\<open>binascii.b2a_base64(s, newline=False)\<close>: three bytes
  become four characters of the alphabet \<^verbatim>\<open>A-Z a-z 0-9 + /\<close>, and a last group of one
  or two bytes is padded with \<^verbatim>\<open>=\<close>.
\<close>

definition BASE64_PAD :: byte where
  "BASE64_PAD = 0x3D"

definition table_b2a_base64 :: "byte \<Rightarrow> byte" where
  "table_b2a_base64 s =
     (if s < 26 then s + 0x41
      else if s < 52 then s - 26 + 0x61
      else if s < 62 then s - 52 + 0x30
      else if s = 62 then 0x2B
      else 0x2F)"

fun b2a_base64 :: "byte list \<Rightarrow> byte list" where
  "b2a_base64 (b0 # b1 # b2 # bs) =
     table_b2a_base64 (drop_bit 2 b0)
     # table_b2a_base64 (push_bit 4 (b0 AND 3) OR drop_bit 4 b1)
     # table_b2a_base64 (push_bit 2 (b1 AND 0xF) OR drop_bit 6 b2)
     # table_b2a_base64 (b2 AND 0x3F)
     # b2a_base64 bs"
| "b2a_base64 [b0, b1] =
     [table_b2a_base64 (drop_bit 2 b0),
      table_b2a_base64 (push_bit 4 (b0 AND 3) OR drop_bit 4 b1),
      table_b2a_base64 (push_bit 2 (b1 AND 0xF)),
      BASE64_PAD]"
| "b2a_base64 [b0] =
     [table_b2a_base64 (drop_bit 2 b0),
      table_b2a_base64 (push_bit 4 (b0 AND 3)),
      BASE64_PAD, BASE64_PAD]"
| "b2a_base64 [] = []"

definition b64encode :: "byte list \<Rightarrow> byte list" where
  "b64encode s = b2a_base64 s"

text \<open>
  \<^verbatim>\<open>base64.b64decode(s)\<close> with its default \<^verbatim>\<open>validate=False\<close> turns a \<^verbatim>\<open>str\<close> into
  ASCII bytes (\<^verbatim>\<open>ValueError\<close> when it has a non-ASCII character) and calls
  \<^verbatim>\<open>binascii.a2b_base64\<close> in its non-strict mode. That decoder walks over the input
  with the position \<open>quad_pos\<close> in the current group of four, the bits \<open>leftchar\<close>
  left over from the previous character and the count \<open>pads\<close> of padding characters
  just seen. A character outside the alphabet is skipped; a \<^verbatim>\<open>=\<close> that completes a
  group ends the decoding, whatever follows; any other \<^verbatim>\<open>=\<close> is skipped. At the end of
  the input an incomplete group raises \<^verbatim>\<open>binascii.Error\<close>.
\<close>

definition table_a2b_base64 :: "byte \<Rightarrow> byte" where
  "table_a2b_base64 c =
     (if 0x41 \<le> c \<and> c \<le> 0x5A then c - 0x41
      else if 0x61 \<le> c \<and> c \<le> 0x7A then c - 0x61 + 26
      else if 0x30 \<le> c \<and> c \<le> 0x39 then c - 0x30 + 52
      else if c = 0x2B then 62
      else if c = 0x2F then 63
      else 0xFF)"

fun a2b_base64_loop ::
  "nat \<Rightarrow> byte \<Rightarrow> nat \<Rightarrow> byte list \<Rightarrow> byte list \<Rightarrow> py_exception + byte list" where
  "a2b_base64_loop quad_pos leftchar pads [] bin_data =
     (if quad_pos \<noteq> 0 then Inl BinasciiError else Inr bin_data)"
| "a2b_base64_loop quad_pos leftchar pads (this_ch # ascii_data) bin_data =
     (if this_ch = BASE64_PAD then
        (if quad_pos \<ge> 2 \<and> quad_pos + (pads + 1) \<ge> 4 then Inr bin_data
         else a2b_base64_loop quad_pos leftchar (if quad_pos \<ge> 2 then pads + 1 else pads)
                ascii_data bin_data)
      else
        (let v = table_a2b_base64 this_ch in
         if v \<ge> 64 then a2b_base64_loop quad_pos leftchar pads ascii_data bin_data
         else if quad_pos = 0 then a2b_base64_loop 1 v 0 ascii_data bin_data
         else if quad_pos = 1 then
           a2b_base64_loop 2 (v AND 0x0F) 0 ascii_data
             (bin_data @ [push_bit 2 leftchar OR drop_bit 4 v])
         else if quad_pos = 2 then
           a2b_base64_loop 3 (v AND 0x03) 0 ascii_data
             (bin_data @ [push_bit 4 leftchar OR drop_bit 2 v])
         else
           a2b_base64_loop 0 0 0 ascii_data
             (bin_data @ [push_bit 6 leftchar OR v])))"

definition a2b_base64 :: "byte list \<Rightarrow> py_exception + byte list" where
  "a2b_base64 ascii_data = a2b_base64_loop 0 0 0 ascii_data []"

definition bytes_from_decode_data :: "string \<Rightarrow> py_exception + byte list" where
  "bytes_from_decode_data s =
     (if list_all (\<lambda>c. byte_of_char c < 0x80) s then Inr (map byte_of_char s)
      else Inl (ValueError ''string argument should contain only ASCII characters''))"

definition b64decode :: "string \<Rightarrow> py_exception + byte list" where
  "b64decode s =
     (case bytes_from_decode_data s of
        Inl e \<Rightarrow> Inl e
      | Inr ascii_data \<Rightarrow> a2b_base64 ascii_data)"

text \<open>\<^verbatim>\<open>hashlib\<close>'s \<^verbatim>\<open>hexdigest()\<close>: two lowercase hexadecimal digits per digest byte.\<close>

definition hex_digit :: "byte \<Rightarrow> char" where
  "hex_digit n = ''0123456789abcdef'' ! unat n"

definition hexdigest :: "byte list \<Rightarrow> string" where
  "hexdigest digest = concat (map (\<lambda>b. [hex_digit (drop_bit 4 b), hex_digit (b AND 0x0F)]) digest)"

section \<open>The operations of the cryptography package and of hashlib\<close>

text \<open>
  The package \<^verbatim>\<open>cryptography\<close> and \<^verbatim>\<open>hashlib.sha256\<close> are not part of the repository.
  Their operations are parameters of the model, collected in one record, and every
  theorem below holds for every value of it. Key generation and ECDSA signing read the
  operating system's random source (\<^verbatim>\<open>ec.ECDSA(hashes.SHA256())\<close> is built without
  \<^verbatim>\<open>deterministic_signing=True\<close>); the value they read is an explicit argument.
  \<^item> \<open>ec_generate_private_key c rnd\<close>: the private value of \<^verbatim>\<open>ec.generate_private_key(c())\<close>;
  \<^item> \<open>ec_public_key c d\<close>: the public numbers of \<^verbatim>\<open>private_key.public_key()\<close>;
  \<^item> \<open>private_bytes_pem_pkcs8\<close>, \<open>public_bytes_pem_spki\<close>, \<open>public_bytes_der_spki\<close>:
    \<^verbatim>\<open>private_bytes\<close> and \<^verbatim>\<open>public_bytes\<close> with the encodings and formats the module asks for;
  \<^item> \<open>load_pem_private_key\<close> (with \<^verbatim>\<open>password=None\<close>) and \<open>load_pem_public_key\<close>;
  \<^item> \<open>ecdsa_sha256_sign c d data nonce\<close>: \<^verbatim>\<open>private_key.sign(data, ec.ECDSA(hashes.SHA256()))\<close>;
  \<^item> \<open>ecdsa_sha256_verify c Q signature data\<close>: \<^verbatim>\<open>public_key.verify(signature, data, ...)\<close>,
    which returns \<^verbatim>\<open>None\<close> or raises;
  \<^item> \<open>hashlib_sha256 data\<close>: the digest of \<^verbatim>\<open>hashlib.sha256(data)\<close>.
\<close>

type_synonym entropy = nat

record crypto_lib =
  ec_generate_private_key :: "curve \<Rightarrow> entropy \<Rightarrow> nat"
  ec_public_key :: "curve \<Rightarrow> nat \<Rightarrow> point"
  private_bytes_pem_pkcs8 :: "curve \<Rightarrow> nat \<Rightarrow> byte list"
  public_bytes_pem_spki :: "curve \<Rightarrow> point \<Rightarrow> byte list"
  public_bytes_der_spki :: "curve \<Rightarrow> point \<Rightarrow> byte list"
  load_pem_private_key :: "byte list \<Rightarrow> py_exception + py_obj"
  load_pem_public_key :: "byte list \<Rightarrow> py_exception + py_obj"
  ecdsa_sha256_sign :: "curve \<Rightarrow> nat \<Rightarrow> byte list \<Rightarrow> entropy \<Rightarrow> byte list"
  ecdsa_sha256_verify :: "curve \<Rightarrow> point \<Rightarrow> byte list \<Rightarrow> byte list \<Rightarrow> py_exception + unit"
  hashlib_sha256 :: "byte list \<Rightarrow> byte list"

text \<open>
  Method calls on a key object. An object of another class has no such method of the
  package; these branches are never reached, because every caller has validated the
  key first.
\<close>

fun private_bytes :: "crypto_lib \<Rightarrow> py_obj \<Rightarrow> py_exception + byte list" where
  "private_bytes L (EllipticCurvePrivateKey c d) = Inr (private_bytes_pem_pkcs8 L c d)"
| "private_bytes L v = Inl AttributeError"

fun public_bytes_pem :: "crypto_lib \<Rightarrow> py_obj \<Rightarrow> py_exception + byte list" where
  "public_bytes_pem L (EllipticCurvePublicKey c Q) = Inr (public_bytes_pem_spki L c Q)"
| "public_bytes_pem L v = Inl AttributeError"

fun public_bytes_der :: "crypto_lib \<Rightarrow> py_obj \<Rightarrow> py_exception + byte list" where
  "public_bytes_der L (EllipticCurvePublicKey c Q) = Inr (public_bytes_der_spki L c Q)"
| "public_bytes_der L v = Inl AttributeError"

fun key_sign :: "crypto_lib \<Rightarrow> py_obj \<Rightarrow> byte list \<Rightarrow> entropy \<Rightarrow> py_exception + byte list" where
  "key_sign L (EllipticCurvePrivateKey c d) data nonce = Inr (ecdsa_sha256_sign L c d data nonce)"
| "key_sign L v data nonce = Inl AttributeError"

fun key_verify :: "crypto_lib \<Rightarrow> py_obj \<Rightarrow> byte list \<Rightarrow> byte list \<Rightarrow> py_exception + unit" where
  "key_verify L (EllipticCurvePublicKey c Q) signature data = ecdsa_sha256_verify L c Q signature data"
| "key_verify L v signature data = Inl AttributeError"

section \<open>KeyManager\<close>

text \<open>
  \<^verbatim>\<open>
  def _assert_private_key_type(private_key):
      if not isinstance(private_key, EllipticCurvePrivateKey):
          raise TypeError("private_key must be an EllipticCurvePrivateKey instance")
      if not isinstance(private_key.curve, ec.SECP256R1):
          raise ValueError("private_key must use curve SECP256R1 (P-256)")
  \<close>
\<close>

fun assert_private_key_type :: "py_obj \<Rightarrow> py_exception + unit" where
  "assert_private_key_type (EllipticCurvePrivateKey c d) =
     (if c \<noteq> SECP256R1
      then Inl (ValueError ''private_key must use curve SECP256R1 (P-256)'')
      else Inr ())"
| "assert_private_key_type v =
     Inl (TypeError ''private_key must be an EllipticCurvePrivateKey instance'')"

fun assert_public_key_type :: "py_obj \<Rightarrow> py_exception + unit" where
  "assert_public_key_type (EllipticCurvePublicKey c Q) =
     (if c \<noteq> SECP256R1
      then Inl (ValueError ''public_key must use curve SECP256R1 (P-256)'')
      else Inr ())"
| "assert_public_key_type v =
     Inl (TypeError ''public_key must be an EllipticCurvePublicKey instance'')"

definition generate_keypair :: "crypto_lib \<Rightarrow> entropy \<Rightarrow> py_obj \<times> py_obj" where
  "generate_keypair L rnd =
     (let d = ec_generate_private_key L SECP256R1 rnd;
          private_key = EllipticCurvePrivateKey SECP256R1 d;
          public_key = EllipticCurvePublicKey SECP256R1 (ec_public_key L SECP256R1 d)
      in (private_key, public_key))"

definition export_private_key_pem :: "crypto_lib \<Rightarrow> py_obj \<Rightarrow> py_exception + string" where
  "export_private_key_pem L private_key =
     (case assert_private_key_type private_key of
        Inl e \<Rightarrow> Inl e
      | Inr _ \<Rightarrow>
          (case private_bytes L private_key of
             Inl e \<Rightarrow> Inl e
           | Inr pem_bytes \<Rightarrow> bytes_decode_utf8 pem_bytes))"

definition export_public_key_pem :: "crypto_lib \<Rightarrow> py_obj \<Rightarrow> py_exception + string" where
  "export_public_key_pem L public_key =
     (case assert_public_key_type public_key of
        Inl e \<Rightarrow> Inl e
      | Inr _ \<Rightarrow>
          (case public_bytes_pem L public_key of
             Inl e \<Rightarrow> Inl e
           | Inr pem_bytes \<Rightarrow> bytes_decode_utf8 pem_bytes))"

fun load_private_key_pem :: "crypto_lib \<Rightarrow> py_obj \<Rightarrow> py_exception + py_obj" where
  "load_private_key_pem L (PyStr pem_data) =
     (case load_pem_private_key L (str_encode_utf8 pem_data) of
        Inl e \<Rightarrow> Inl e
      | Inr key \<Rightarrow>
          if \<not> isinstance_EllipticCurvePrivateKey key
          then Inl (TypeError ''Loaded key is not an EllipticCurvePrivateKey'')
          else (case assert_private_key_type key of
                  Inl e \<Rightarrow> Inl e
                | Inr _ \<Rightarrow> Inr key))"
| "load_private_key_pem L v = Inl (TypeError ''pem_data must be a string'')"

fun load_public_key_pem :: "crypto_lib \<Rightarrow> py_obj \<Rightarrow> py_exception + py_obj" where
  "load_public_key_pem L (PyStr pem_data) =
     (case load_pem_public_key L (str_encode_utf8 pem_data) of
        Inl e \<Rightarrow> Inl e
      | Inr key \<Rightarrow>
          if \<not> isinstance_EllipticCurvePublicKey key
          then Inl (TypeError ''Loaded key is not an EllipticCurvePublicKey'')
          else (case assert_public_key_type key of
                  Inl e \<Rightarrow> Inl e
                | Inr _ \<Rightarrow> Inr key))"
| "load_public_key_pem L v = Inl (TypeError ''pem_data must be a string'')"

definition calculate_key_fingerprint :: "crypto_lib \<Rightarrow> py_obj \<Rightarrow> py_exception + string" where
  "calculate_key_fingerprint L public_key =
     (case assert_public_key_type public_key of
        Inl e \<Rightarrow> Inl e
      | Inr _ \<Rightarrow>
          (case public_bytes_der L public_key of
             Inl e \<Rightarrow> Inl e
           | Inr der_bytes \<Rightarrow>
               (let fingerprint = hexdigest (hashlib_sha256 L der_bytes)
                in Inr (''sha256:'' @ fingerprint))))"

definition calculate_key_fingerprint_from_pem :: "crypto_lib \<Rightarrow> py_obj \<Rightarrow> py_exception + string" where
  "calculate_key_fingerprint_from_pem L public_key_pem =
     (case load_public_key_pem L public_key_pem of
        Inl e \<Rightarrow> Inl e
      | Inr public_key \<Rightarrow> calculate_key_fingerprint L public_key)"

section \<open>SignatureManager\<close>

text \<open>
  \<open>sign_hash\<close> has one argument more than the Python function: the value that the
  signing primitive reads from the random source during this call.
\<close>

definition sign_hash :: "crypto_lib \<Rightarrow> entropy \<Rightarrow> py_obj \<Rightarrow> py_obj \<Rightarrow> py_exception + string" where
  "sign_hash L nonce hash_bytes private_key =
     (case hash_bytes of
        PyBytes h \<Rightarrow>
          (case assert_private_key_type private_key of
             Inl e \<Rightarrow> Inl e
           | Inr _ \<Rightarrow>
               (case key_sign L private_key h nonce of
                  Inl e \<Rightarrow> Inl e
                | Inr signature \<Rightarrow> bytes_decode_ascii (b64encode signature)))
      | _ \<Rightarrow> Inl (TypeError ''hash_bytes must be bytes''))"

text \<open>
  The body of the \<^verbatim>\<open>try\<close> block of \<^verbatim>\<open>verify_signature\<close>, and the function itself:
  whatever the body raises is turned into \<^verbatim>\<open>False\<close>.
\<close>

definition verify_signature_try :: "crypto_lib \<Rightarrow> byte list \<Rightarrow> string \<Rightarrow> py_obj \<Rightarrow> py_exception + bool" where
  "verify_signature_try L h signature_b64 public_key =
     (case b64decode signature_b64 of
        Inl e \<Rightarrow> Inl e
      | Inr signature \<Rightarrow>
          (case key_verify L public_key signature h of
             Inl e \<Rightarrow> Inl e
           | Inr _ \<Rightarrow> Inr True))"

definition verify_signature :: "crypto_lib \<Rightarrow> py_obj \<Rightarrow> py_obj \<Rightarrow> py_obj \<Rightarrow> py_exception + bool" where
  "verify_signature L hash_bytes signature_b64 public_key =
     (case hash_bytes of
        PyBytes h \<Rightarrow>
          (case signature_b64 of
             PyStr s \<Rightarrow>
               (case assert_public_key_type public_key of
                  Inl e \<Rightarrow> Inl e
                | Inr _ \<Rightarrow>
                    (case verify_signature_try L h s public_key of
                       Inl e \<Rightarrow> Inr False
                     | Inr b \<Rightarrow> Inr b))
           | _ \<Rightarrow> Inl (TypeError ''signature_b64 must be a string''))
      | _ \<Rightarrow> Inl (TypeError ''hash_bytes must be bytes''))"

definition sign_schema_hash :: "crypto_lib \<Rightarrow> entropy \<Rightarrow> py_obj \<Rightarrow> py_obj \<Rightarrow> py_exception + string" where
  "sign_schema_hash L nonce schema_hash private_key = sign_hash L nonce schema_hash private_key"

definition verify_schema_signature :: "crypto_lib \<Rightarrow> py_obj \<Rightarrow> py_obj \<Rightarrow> py_obj \<Rightarrow> py_exception + bool" where
  "verify_schema_signature L schema_hash signature_b64 public_key =
     verify_signature L schema_hash signature_b64 public_key"

section \<open>The error kinds of the specification\<close>

text \<open>
  The specification names three kinds of error where the module raises Python's
  built-in exceptions. \<open>spec_error_kind\<close> reads each exception the module can let out
  as the kind the specification gives it: \<open>InputTypeError\<close> for the three guards on a
  \<^verbatim>\<open>str\<close> or \<^verbatim>\<open>bytes\<close> argument, \<open>TypeMismatch\<close> for a key of the wrong class or on
  the wrong curve, \<open>ParseError\<close> for the \<^verbatim>\<open>ValueError\<close> of the PEM parser.
\<close>

datatype error_kind = InputTypeError | TypeMismatch | ParseError

fun spec_error_kind :: "py_exception \<Rightarrow> error_kind option" where
  "spec_error_kind (TypeError m) =
     (if m = ''pem_data must be a string'' \<or> m = ''hash_bytes must be bytes''
         \<or> m = ''signature_b64 must be a string''
      then Some InputTypeError
      else if m = ''private_key must be an EllipticCurvePrivateKey instance''
         \<or> m = ''public_key must be an EllipticCurvePublicKey instance''
         \<or> m = ''Loaded key is not an EllipticCurvePrivateKey''
         \<or> m = ''Loaded key is not an EllipticCurvePublicKey''
      then Some TypeMismatch
      else None)"
| "spec_error_kind (ValueError m) =
     (if m = ''private_key must use curve SECP256R1 (P-256)''
         \<or> m = ''public_key must use curve SECP256R1 (P-256)''
      then Some TypeMismatch
      else Some ParseError)"
| "spec_error_kind e = None"

definition raises_kind :: "py_exception + 'a \<Rightarrow> error_kind \<Rightarrow> bool" where
  "raises_kind r k = (case r of Inl e \<Rightarrow> spec_error_kind e = Some k | Inr _ \<Rightarrow> False)"

fun ec_key_on_other_curve :: "py_obj \<Rightarrow> bool" where
  "ec_key_on_other_curve (EllipticCurvePrivateKey c d) = (c \<noteq> SECP256R1)"
| "ec_key_on_other_curve (EllipticCurvePublicKey c Q) = (c \<noteq> SECP256R1)"
| "ec_key_on_other_curve v = False"

section \<open>A small instance of the package\<close>

text \<open>
  To run the definitions on concrete inputs, \<open>mini_lib\<close> instantiates the parameters
  with a miniature: the signing equations of DSA, which ECDSA carries over to a curve
  group, in the subgroup of order 11 of the integers modulo 23 generated by 2; keys
  and signatures of one byte per number; a PEM armour around the base64 of the
  encoded key. It stands in for the package only where a theorem is applied to
  concrete data.
\<close>

definition mini_curve_tag :: "curve \<Rightarrow> byte" where
  "mini_curve_tag c =
     (case c of SECP256R1 \<Rightarrow> 1 | SECP384R1 \<Rightarrow> 2 | SECP521R1 \<Rightarrow> 3
      | SECP224R1 \<Rightarrow> 4 | SECP192R1 \<Rightarrow> 5 | SECP256K1 \<Rightarrow> 6)"

definition mini_curve_of_tag :: "byte \<Rightarrow> curve option" where
  "mini_curve_of_tag t =
     (if t = 1 then Some SECP256R1 else if t = 2 then Some SECP384R1
      else if t = 3 then Some SECP521R1 else if t = 4 then Some SECP224R1
      else if t = 5 then Some SECP192R1 else if t = 6 then Some SECP256K1
      else None)"

definition mini_generate_private_key :: "curve \<Rightarrow> entropy \<Rightarrow> nat" where
  "mini_generate_private_key c rnd = 1 + rnd mod 10"

fun mini_pow_mod :: "nat \<Rightarrow> nat \<Rightarrow> nat \<Rightarrow> nat" where
  "mini_pow_mod b 0 m = 1 mod m"
| "mini_pow_mod b (Suc e) m = b * mini_pow_mod b e m mod m"

definition mini_public_key :: "curve \<Rightarrow> nat \<Rightarrow> point" where
  "mini_public_key c d = (mini_pow_mod 2 d 23, mini_pow_mod (mini_pow_mod 2 d 23) 2 23)"

definition mini_digest :: "byte list \<Rightarrow> nat" where
  "mini_digest data = sum_list (map unat data) mod 11"

definition mini_sign_with :: "nat \<Rightarrow> nat \<Rightarrow> nat \<Rightarrow> nat \<times> nat" where
  "mini_sign_with d z k =
     (let r = mini_pow_mod 2 k 23 mod 11 in (r, (mini_pow_mod k 9 11 * (z + d * r)) mod 11))"

definition mini_sign :: "curve \<Rightarrow> nat \<Rightarrow> byte list \<Rightarrow> entropy \<Rightarrow> byte list" where
  "mini_sign c d data nonce =
     (case filter (\<lambda>(r, s). r \<noteq> 0 \<and> s \<noteq> 0)
             (map (\<lambda>i. mini_sign_with d (mini_digest data) (1 + (nonce + i) mod 10))
                [0, 1, 2, 3, 4, 5, 6, 7, 8, 9]) of
        (r, s) # _ \<Rightarrow> [0x30, 0x06, 0x02, 0x01, of_nat r, 0x02, 0x01, of_nat s]
      | [] \<Rightarrow> [])"

definition mini_verify :: "curve \<Rightarrow> point \<Rightarrow> byte list \<Rightarrow> byte list \<Rightarrow> py_exception + unit" where
  "mini_verify c Q signature data =
     (case signature of
        [t0, l0, t1, l1, r, t2, l2, s] \<Rightarrow>
          (let w = mini_pow_mod (unat s) 9 11;
               u1 = mini_digest data * w mod 11;
               u2 = unat r * w mod 11
           in if [t0, l0, t1, l1, t2, l2] = [0x30, 0x06, 0x02, 0x01, 0x02, 0x01]
                 \<and> 0 < unat r \<and> unat r < 11 \<and> 0 < unat s \<and> unat s < 11
                 \<and> (mini_pow_mod 2 u1 23 * mini_pow_mod (fst Q) u2 23 mod 23) mod 11 = unat r
              then Inr () else Inl InvalidSignature)
      | _ \<Rightarrow> Inl InvalidSignature)"

definition mini_pem :: "string \<Rightarrow> byte list \<Rightarrow> byte list" where
  "mini_pem label body =
     str_encode_utf8 (''-----BEGIN '' @ label @ ''-----'') @ [0x0A]
     @ b2a_base64 body @ [0x0A]
     @ str_encode_utf8 (''-----END '' @ label @ ''-----'') @ [0x0A]"

definition mini_unpem :: "string \<Rightarrow> byte list \<Rightarrow> py_exception + byte list" where
  "mini_unpem label data =
     (let header = str_encode_utf8 (''-----BEGIN '' @ label @ ''-----'') @ [0x0A];
          footer = [0x0A] @ str_encode_utf8 (''-----END '' @ label @ ''-----'') @ [0x0A]
      in if length header + length footer \<le> length data
            \<and> take (length header) data = header
            \<and> drop (length data - length footer) data = footer
         then (case a2b_base64 (drop (length header) (take (length data - length footer) data)) of
                 Inl e \<Rightarrow> Inl (ValueError ''Could not deserialize key data'')
               | Inr body \<Rightarrow> Inr body)
         else Inl (ValueError ''Could not deserialize key data''))"

definition mini_load_pem_private_key :: "byte list \<Rightarrow> py_exception + py_obj" where
  "mini_load_pem_private_key data =
     (case mini_unpem ''PRIVATE KEY'' data of
        Inl e \<Rightarrow> Inl e
      | Inr [t, d] \<Rightarrow>
          (case mini_curve_of_tag t of
             Some c \<Rightarrow> Inr (EllipticCurvePrivateKey c (unat d))
           | None \<Rightarrow> Inl UnsupportedAlgorithm)
      | Inr _ \<Rightarrow> Inl (ValueError ''Could not deserialize key data''))"

definition mini_load_pem_public_key :: "byte list \<Rightarrow> py_exception + py_obj" where
  "mini_load_pem_public_key data =
     (case mini_unpem ''PUBLIC KEY'' data of
        Inl e \<Rightarrow> Inl e
      | Inr [t, x, y] \<Rightarrow>
          (case mini_curve_of_tag t of
             Some c \<Rightarrow> Inr (EllipticCurvePublicKey c (unat x, unat y))
           | None \<Rightarrow> Inl UnsupportedAlgorithm)
      | Inr _ \<Rightarrow> Inl (ValueError ''Could not deserialize key data''))"

definition mini_sha256 :: "byte list \<Rightarrow> byte list" where
  "mini_sha256 data = map (\<lambda>i. of_nat (7 * i + sum_list (map unat data))) [0..<32]"

definition mini_lib :: crypto_lib where
  "mini_lib =
     \<lparr> ec_generate_private_key = mini_generate_private_key,
       ec_public_key = mini_public_key,
       private_bytes_pem_pkcs8 = (\<lambda>c d. mini_pem ''PRIVATE KEY'' [mini_curve_tag c, of_nat d]),
       public_bytes_pem_spki =
         (\<lambda>c Q. mini_pem ''PUBLIC KEY'' [mini_curve_tag c, of_nat (fst Q), of_nat (snd Q)]),
       public_bytes_der_spki = (\<lambda>c Q. [0x30, mini_curve_tag c, of_nat (fst Q), of_nat (snd Q)]),
       load_pem_private_key = mini_load_pem_private_key,
       load_pem_public_key = mini_load_pem_public_key,
       ecdsa_sha256_sign = mini_sign,
       ecdsa_sha256_verify = mini_verify,
       hashlib_sha256 = mini_sha256 \<rparr>"

section \<open>Validation order\<close>

text \<open>
  Claim C7. In both validation helpers the class test comes first: a value that is
  not an elliptic-curve key of the expected kind gets the \<^verbatim>\<open>TypeError\<close>, whatever
  else it is, and the \<^verbatim>\<open>ValueError\<close> for the wrong curve is raised exactly for the
  keys of the expected kind whose curve is not P-256.
\<close>

theorem validation_order:
  "(\<not> isinstance_EllipticCurvePrivateKey v \<longrightarrow>
      assert_private_key_type v =
        Inl (TypeError ''private_key must be an EllipticCurvePrivateKey instance''))
   \<and> (assert_private_key_type v = Inl (ValueError ''private_key must use curve SECP256R1 (P-256)'')
        \<longleftrightarrow> (\<exists>c d. v = EllipticCurvePrivateKey c d \<and> c \<noteq> SECP256R1))
   \<and> (\<not> isinstance_EllipticCurvePublicKey v \<longrightarrow>
      assert_public_key_type v =
        Inl (TypeError ''public_key must be an EllipticCurvePublicKey instance''))
   \<and> (assert_public_key_type v = Inl (ValueError ''public_key must use curve SECP256R1 (P-256)'')
        \<longleftrightarrow> (\<exists>c Q. v = EllipticCurvePublicKey c Q \<and> c \<noteq> SECP256R1))"
  by (cases v) auto

theorem validation_order_witness:
  "\<not> isinstance_EllipticCurvePrivateKey (EllipticCurvePublicKey SECP384R1 (1, 2))
   \<and> assert_private_key_type (EllipticCurvePublicKey SECP384R1 (1, 2)) =
        Inl (TypeError ''private_key must be an EllipticCurvePrivateKey instance'')
   \<and> assert_public_key_type (EllipticCurvePublicKey SECP384R1 (1, 2)) =
        Inl (ValueError ''public_key must use curve SECP256R1 (P-256)'')"
  using validation_order [of "EllipticCurvePublicKey SECP384R1 (1, 2)"] by simp

section \<open>The schema aliases\<close>

text \<open>
  Claim C8. \<open>sign_schema_hash\<close> returns what \<open>sign_hash\<close> returns and
  \<open>verify_schema_signature\<close> what \<open>verify_signature\<close> returns, on every input: the
  same value or the same exception.
\<close>

theorem schema_aliases:
  "sign_schema_hash L nonce schema_hash private_key = sign_hash L nonce schema_hash private_key
   \<and> verify_schema_signature L schema_hash signature_b64 public_key =
       verify_signature L schema_hash signature_b64 public_key"
  by (simp add: sign_schema_hash_def verify_schema_signature_def)

theorem schema_aliases_witness:
  "sign_schema_hash mini_lib 5 (PyStr ''string-not-bytes'') (EllipticCurvePrivateKey SECP256R1 4) =
     Inl (TypeError ''hash_bytes must be bytes'')
   \<and> verify_schema_signature mini_lib (PyStr ''string-not-bytes'') (PyInt 7)
        (EllipticCurvePublicKey SECP256R1 (16, 3)) =
     Inl (TypeError ''hash_bytes must be bytes'')"
  using schema_aliases [of mini_lib 5 "PyStr ''string-not-bytes''" "EllipticCurvePrivateKey SECP256R1 4"
      "PyInt 7" "EllipticCurvePublicKey SECP256R1 (16, 3)"]
  by (simp add: sign_hash_def verify_signature_def)

end
